theory Spec2Isabelle
  imports Complex_Main
begin

section \<open>The physics system of the engine (PhysicsSystem.js)\<close>

text \<open>
  The module is embedded over the real numbers: every JavaScript number is a \<open>real\<close>, so
  rounding, \<open>NaN\<close> and the infinities are outside the model (a division by zero is HOL's
  \<open>x / 0 = 0\<close>, where JavaScript gives an infinity or \<open>NaN\<close>).

  Bodies and colliders are JavaScript objects, held by reference and mutated in place. A
  reference is an address; the objects live in two stores, \<open>bodyStore\<close> and
  \<open>colliderStore\<close>, and the arrays \<open>this.bodies\<close> and \<open>this.colliders\<close> are lists of
  addresses. The three vectors of a body are owned by that body (no two bodies share a
  \<open>Vector3\<close> object). The opaque \<open>userData\<close> payload and the clock reading
  \<open>lastStepTime\<close> are never read by the module and are left out.

  A system carries a trace, which the source does not have: it records the pairs a pass
  examines, the resolvers it calls and the callbacks it invokes, so that statements can
  speak of them. A callback is the caller's code; its call is recorded and changes
  nothing else. A call that throws returns the exception with the state the throw leaves.
\<close>

subsection \<open>Vectors (THREE.Vector3 of the three.js library)\<close>

datatype vec3 = Vector3 (vec_x: real) (vec_y: real) (vec_z: real)

definition vadd :: "vec3 \<Rightarrow> vec3 \<Rightarrow> vec3" where
  "vadd u v = Vector3 (vec_x u + vec_x v) (vec_y u + vec_y v) (vec_z u + vec_z v)"

definition vsub :: "vec3 \<Rightarrow> vec3 \<Rightarrow> vec3" where
  "vsub u v = Vector3 (vec_x u - vec_x v) (vec_y u - vec_y v) (vec_z u - vec_z v)"

definition multiplyScalar :: "vec3 \<Rightarrow> real \<Rightarrow> vec3" where
  "multiplyScalar v k = Vector3 (vec_x v * k) (vec_y v * k) (vec_z v * k)"

definition divideScalar :: "vec3 \<Rightarrow> real \<Rightarrow> vec3" where
  "divideScalar v k = multiplyScalar v (1 / k)"

definition dot :: "vec3 \<Rightarrow> vec3 \<Rightarrow> real" where
  "dot u v = vec_x u * vec_x v + vec_y u * vec_y v + vec_z u * vec_z v"

definition vlength :: "vec3 \<Rightarrow> real" where
  "vlength v = sqrt (vec_x v * vec_x v + vec_y v * vec_y v + vec_z v * vec_z v)"

text \<open>\<open>normalize() { return this.divideScalar(this.length() || 1) }\<close>\<close>

definition normalize :: "vec3 \<Rightarrow> vec3" where
  "normalize v = divideScalar v (if vlength v = 0 then 1 else vlength v)"

subsection \<open>Objects\<close>

type_synonym ref = nat

text \<open>
  The fields a body and a collider have in common. \<open>id'\<close> is the \<open>id\<close> property:
  \<open>None\<close> is \<open>undefined\<close>.
\<close>

record object =
  id' :: "string option"
  position :: vec3
  shape :: string
  dimensions :: vec3

record body = object +
  velocity :: vec3
  acceleration :: vec3
  mass :: real
  restitution :: real
  friction :: real
  isStatic :: bool

text \<open>
  A callback slot of a collider is \<open>True\<close> when it holds a function and \<open>False\<close>
  when it is \<open>null\<close>. What the function does is the caller's code: a call is recorded in
  the trace and has no other effect.
\<close>

record collider = object +
  isTrigger :: bool
  onCollisionEnter :: bool
  onCollisionStay :: bool
  onCollisionExit :: bool
  onTriggerEnter :: bool
  onTriggerStay :: bool
  onTriggerExit :: bool

text \<open>The second object of a pair: a body or a collider.\<close>

datatype other = OtherBody ref | OtherCollider ref

datatype transition = ENTER | STAY | EXIT

datatype callbackName =
  OnCollisionEnter | OnCollisionStay | OnCollisionExit
  | OnTriggerEnter | OnTriggerStay | OnTriggerExit

text \<open>
  The trace records what a pass does: \<open>PairCheck a b isColliding t\<close> for every pair the
  pass examines (with the branch \<open>t\<close> of the event chain it takes), the two resolvers'
  calls, and \<open>Callback n c a\<close> for the call of collider \<open>c\<close>'s callback \<open>n\<close> with body
  \<open>a\<close> as its argument.
\<close>

datatype event =
  PairCheck ref other bool "transition option"
  | ResolveCollision ref other
  | ResolveCollisionDynamic ref other
  | Callback callbackName ref ref

type_synonym matrix = "string \<Rightarrow> (string \<Rightarrow> bool option) option"

record system =
  gravity :: vec3
  timeScale :: real
  bodies :: "ref list"
  colliders :: "ref list"
  collisionMatrix :: matrix
  debugEnabled :: bool
  bodyStore :: "ref \<Rightarrow> body"
  colliderStore :: "ref \<Rightarrow> collider"
  nextBody :: ref
  nextCollider :: ref
  trace :: "event list"

datatype exn = TypeError

text \<open>A call returns, or throws with the state as the throw leaves it.\<close>

datatype result = Done system | Thrown exn system

fun stateOf :: "result \<Rightarrow> system" where
  "stateOf (Done s) = s"
| "stateOf (Thrown e s) = s"

subsection \<open>JavaScript's coercions\<close>

text \<open>\<open>a || d\<close> for a number, a string, a boolean and an object option.\<close>

definition orNumber :: "real option \<Rightarrow> real \<Rightarrow> real" where
  "orNumber v d = (case v of None \<Rightarrow> d | Some n \<Rightarrow> if n = 0 then d else n)"

definition orString :: "string option \<Rightarrow> string \<Rightarrow> string" where
  "orString v d = (case v of None \<Rightarrow> d | Some t \<Rightarrow> if t = [] then d else t)"

definition orBool :: "bool option \<Rightarrow> bool \<Rightarrow> bool" where
  "orBool v d = (case v of None \<Rightarrow> d | Some b \<Rightarrow> if b then b else d)"

definition orObject :: "'a option \<Rightarrow> 'a \<Rightarrow> 'a" where
  "orObject v d = (case v of None \<Rightarrow> d | Some ob \<Rightarrow> ob)"

text \<open>\<open>!id\<close>: an id is falsy when it is undefined or the empty string.\<close>

definition falsyId :: "string option \<Rightarrow> bool" where
  "falsyId v = (case v of None \<Rightarrow> True | Some t \<Rightarrow> t = [])"

text \<open>An id used as a property key: \<open>undefined\<close> is the key \<open>"undefined"\<close>.\<close>

definition key :: "string option \<Rightarrow> string" where
  "key v = (case v of None \<Rightarrow> ''undefined'' | Some t \<Rightarrow> t)"

text \<open>The decimal digits of a count, as a template literal prints it.\<close>

fun numberToString :: "nat \<Rightarrow> string" where
  "numberToString n =
     (if n < 10 then [''0123456789'' ! n]
      else numberToString (n div 10) @ [''0123456789'' ! (n mod 10)])"

declare numberToString.simps [simp del]

text \<open>The truth value of a matrix entry: \<open>undefined\<close> and \<open>false\<close> are falsy.\<close>

definition truthy :: "bool option \<Rightarrow> bool" where
  "truthy v = (case v of None \<Rightarrow> False | Some b \<Rightarrow> b)"

subsection \<open>Construction and the registry\<close>

record systemOptions =
  opt_gravity :: "vec3 option"
  opt_timeScale :: "real option"
  opt_debugEnabled :: "bool option"

text \<open>
  The constructor. The stores start with a default object at every address; no address is
  in use before it is allocated.
\<close>

definition defaultBody :: body where
  "defaultBody =
     \<lparr>id' = None, position = Vector3 0 0 0, shape = ''box'', dimensions = Vector3 1 1 1,
      velocity = Vector3 0 0 0, acceleration = Vector3 0 0 0, mass = 1,
      restitution = 3 / 10, friction = 1 / 2, isStatic = False\<rparr>"

definition defaultCollider :: collider where
  "defaultCollider =
     \<lparr>id' = None, position = Vector3 0 0 0, shape = ''box'', dimensions = Vector3 1 1 1,
      isTrigger = False, onCollisionEnter = False, onCollisionStay = False,
      onCollisionExit = False, onTriggerEnter = False, onTriggerStay = False,
      onTriggerExit = False\<rparr>"

definition newPhysicsSystem :: "systemOptions \<Rightarrow> system" where
  "newPhysicsSystem options =
     \<lparr>gravity = orObject (opt_gravity options) (Vector3 0 (- (98 / 10)) 0),
      timeScale = orNumber (opt_timeScale options) 1,
      bodies = [],
      colliders = [],
      collisionMatrix = Map.empty,
      debugEnabled = orBool (opt_debugEnabled options) False,
      bodyStore = (\<lambda>_. defaultBody),
      colliderStore = (\<lambda>_. defaultCollider),
      nextBody = 0,
      nextCollider = 0,
      trace = []\<rparr>"

definition modBody :: "ref \<Rightarrow> (body \<Rightarrow> body) \<Rightarrow> system \<Rightarrow> system" where
  "modBody r f s = s\<lparr>bodyStore := (bodyStore s)(r := f (bodyStore s r))\<rparr>"

definition modCollider :: "ref \<Rightarrow> (collider \<Rightarrow> collider) \<Rightarrow> system \<Rightarrow> system" where
  "modCollider r f s = s\<lparr>colliderStore := (colliderStore s)(r := f (colliderStore s r))\<rparr>"

definition addBody :: "ref \<Rightarrow> system \<Rightarrow> system" where
  "addBody b s =
     (let s1 = (if falsyId (id' (bodyStore s b))
                then modBody b (\<lambda>bd. bd\<lparr>id' := Some (''body_'' @ numberToString (length (bodies s)))\<rparr>) s
                else s)
      in s1\<lparr>bodies := bodies s1 @ [b]\<rparr>)"

text \<open>
  \<open>delete this.collisionMatrix[id]\<close>, then \<open>delete row[id]\<close> in every remaining row.
\<close>

definition purge :: "string \<Rightarrow> matrix \<Rightarrow> matrix" where
  "purge k m = (\<lambda>a. if a = k then None else map_option (\<lambda>row. row(k := None)) (m a))"

definition removeBody :: "ref \<Rightarrow> system \<Rightarrow> system" where
  "removeBody b s =
     (if b \<in> set (bodies s)
      then s\<lparr>bodies := remove1 b (bodies s),
             collisionMatrix := purge (key (id' (bodyStore s b))) (collisionMatrix s)\<rparr>
      else s)"

definition addCollider :: "ref \<Rightarrow> system \<Rightarrow> system" where
  "addCollider c s =
     (let s1 = (if falsyId (id' (colliderStore s c))
                then modCollider c
                       (\<lambda>cd. cd\<lparr>id' := Some (''collider_'' @ numberToString (length (colliders s)))\<rparr>) s
                else s)
      in s1\<lparr>colliders := colliders s1 @ [c]\<rparr>)"

definition removeCollider :: "ref \<Rightarrow> system \<Rightarrow> system" where
  "removeCollider c s =
     (if c \<in> set (colliders s) then s\<lparr>colliders := remove1 c (colliders s)\<rparr> else s)"

record bodyOptions =
  bopt_id :: "string option"
  bopt_position :: "vec3 option"
  bopt_velocity :: "vec3 option"
  bopt_acceleration :: "vec3 option"
  bopt_mass :: "real option"
  bopt_restitution :: "real option"
  bopt_friction :: "real option"
  bopt_isStatic :: "bool option"
  bopt_shape :: "string option"
  bopt_dimensions :: "vec3 option"

text \<open>The object literal of \<open>createBody\<close>.\<close>

definition bodyLiteral :: "bodyOptions \<Rightarrow> nat \<Rightarrow> body" where
  "bodyLiteral options count =
     \<lparr>id' = Some (orString (bopt_id options) (''body_'' @ numberToString count)),
      position = orObject (bopt_position options) (Vector3 0 0 0),
      shape = orString (bopt_shape options) ''box'',
      dimensions = orObject (bopt_dimensions options) (Vector3 1 1 1),
      velocity = orObject (bopt_velocity options) (Vector3 0 0 0),
      acceleration = orObject (bopt_acceleration options) (Vector3 0 0 0),
      mass = orNumber (bopt_mass options) 1,
      restitution = orNumber (bopt_restitution options) (3 / 10),
      friction = orNumber (bopt_friction options) (1 / 2),
      isStatic = orBool (bopt_isStatic options) False\<rparr>"

text \<open>
  \<open>createBody\<close> allocates the new object at the next free address, then registers it;
  it returns the object's address and the system.
\<close>

definition createBody :: "bodyOptions \<Rightarrow> system \<Rightarrow> ref \<times> system" where
  "createBody options s =
     (let b = nextBody s;
          s1 = s\<lparr>bodyStore := (bodyStore s)(b := bodyLiteral options (length (bodies s))),
                 nextBody := Suc b\<rparr>
      in (b, addBody b s1))"

record colliderOptions =
  copt_id :: "string option"
  copt_position :: "vec3 option"
  copt_shape :: "string option"
  copt_dimensions :: "vec3 option"
  copt_isTrigger :: "bool option"
  copt_onCollisionEnter :: bool
  copt_onCollisionStay :: bool
  copt_onCollisionExit :: bool
  copt_onTriggerEnter :: bool
  copt_onTriggerStay :: bool
  copt_onTriggerExit :: bool

definition colliderLiteral :: "colliderOptions \<Rightarrow> nat \<Rightarrow> collider" where
  "colliderLiteral options count =
     \<lparr>id' = Some (orString (copt_id options) (''collider_'' @ numberToString count)),
      position = orObject (copt_position options) (Vector3 0 0 0),
      shape = orString (copt_shape options) ''box'',
      dimensions = orObject (copt_dimensions options) (Vector3 1 1 1),
      isTrigger = orBool (copt_isTrigger options) False,
      onCollisionEnter = copt_onCollisionEnter options,
      onCollisionStay = copt_onCollisionStay options,
      onCollisionExit = copt_onCollisionExit options,
      onTriggerEnter = copt_onTriggerEnter options,
      onTriggerStay = copt_onTriggerStay options,
      onTriggerExit = copt_onTriggerExit options\<rparr>"

definition createCollider :: "colliderOptions \<Rightarrow> system \<Rightarrow> ref \<times> system" where
  "createCollider options s =
     (let c = nextCollider s;
          s1 = s\<lparr>colliderStore := (colliderStore s)(c := colliderLiteral options (length (colliders s))),
                 nextCollider := Suc c\<rparr>
      in (c, addCollider c s1))"

subsection \<open>Collision detection\<close>

definition checkCollision :: "'a object_scheme \<Rightarrow> 'b object_scheme \<Rightarrow> bool" where
  "checkCollision a b =
     (if shape a \<noteq> ''box'' \<or> shape b \<noteq> ''box'' then False
      else \<bar>vec_x (position a) - vec_x (position b)\<bar> * 2 < vec_x (dimensions a) + vec_x (dimensions b)
         \<and> \<bar>vec_y (position a) - vec_y (position b)\<bar> * 2 < vec_y (dimensions a) + vec_y (dimensions b)
         \<and> \<bar>vec_z (position a) - vec_z (position b)\<bar> * 2 < vec_z (dimensions a) + vec_z (dimensions b))"


fun otherPosition :: "system \<Rightarrow> other \<Rightarrow> vec3" where
  "otherPosition s (OtherBody b) = position (bodyStore s b)"
| "otherPosition s (OtherCollider c) = position (colliderStore s c)"

fun otherDimensions :: "system \<Rightarrow> other \<Rightarrow> vec3" where
  "otherDimensions s (OtherBody b) = dimensions (bodyStore s b)"
| "otherDimensions s (OtherCollider c) = dimensions (colliderStore s c)"

text \<open>A collider has no \<open>isStatic\<close> and no \<open>friction\<close>, a body no \<open>isTrigger\<close>: reading
  one gives \<open>undefined\<close>, which is falsy, and \<open>undefined > 0\<close> is false.\<close>

fun otherIsStatic :: "system \<Rightarrow> other \<Rightarrow> bool" where
  "otherIsStatic s (OtherBody b) = isStatic (bodyStore s b)"
| "otherIsStatic s (OtherCollider c) = False"

fun otherIsTrigger :: "system \<Rightarrow> other \<Rightarrow> bool" where
  "otherIsTrigger s (OtherBody b) = False"
| "otherIsTrigger s (OtherCollider c) = isTrigger (colliderStore s c)"

fun otherFriction :: "system \<Rightarrow> other \<Rightarrow> real option" where
  "otherFriction s (OtherBody b) = Some (friction (bodyStore s b))"
| "otherFriction s (OtherCollider c) = None"

subsection \<open>Resolution\<close>

datatype axis = AxisX | AxisY | AxisZ

text \<open>The per-axis penetration of two boxes.\<close>

definition overlapOf :: "vec3 \<Rightarrow> vec3 \<Rightarrow> vec3 \<Rightarrow> vec3 \<Rightarrow> vec3" where
  "overlapOf dimA posA dimB posB =
     Vector3 ((vec_x dimA + vec_x dimB) / 2 - \<bar>vec_x posA - vec_x posB\<bar>)
             ((vec_y dimA + vec_y dimB) / 2 - \<bar>vec_y posA - vec_y posB\<bar>)
             ((vec_z dimA + vec_z dimB) / 2 - \<bar>vec_z posA - vec_z posB\<bar>)"

text \<open>The chain \<open>if (overlap.x < overlap.y && overlap.x < overlap.z) ... else if
  (overlap.y < overlap.z) ... else ...\<close> of both resolvers.\<close>

definition smallestOverlapAxis :: "vec3 \<Rightarrow> axis" where
  "smallestOverlapAxis overlap =
     (if vec_x overlap < vec_y overlap \<and> vec_x overlap < vec_z overlap then AxisX
      else if vec_y overlap < vec_z overlap then AxisY
      else AxisZ)"

fun component :: "axis \<Rightarrow> vec3 \<Rightarrow> real" where
  "component AxisX v = vec_x v"
| "component AxisY v = vec_y v"
| "component AxisZ v = vec_z v"

fun setComponent :: "axis \<Rightarrow> real \<Rightarrow> vec3 \<Rightarrow> vec3" where
  "setComponent AxisX r v = Vector3 r (vec_y v) (vec_z v)"
| "setComponent AxisY r v = Vector3 (vec_x v) r (vec_z v)"
| "setComponent AxisZ r v = Vector3 (vec_x v) (vec_y v) r"

text \<open>\<open>body.position.x < staticObj.position.x ? -1 : 1\<close>\<close>

definition directionOf :: "real \<Rightarrow> real \<Rightarrow> real" where
  "directionOf p q = (if p < q then - 1 else 1)"

text \<open>The push out of the static object and the reflection, along the axis chosen.\<close>

definition pushOut :: "axis \<Rightarrow> real \<Rightarrow> real \<Rightarrow> body \<Rightarrow> body" where
  "pushOut ax direction depth bd =
     bd\<lparr>position := setComponent ax (component ax (position bd) + direction * depth) (position bd),
        velocity := setComponent ax (- component ax (velocity bd) * restitution bd) (velocity bd)\<rparr>"

definition applyFriction :: "real \<Rightarrow> body \<Rightarrow> body" where
  "applyFriction combinedFriction bd =
     bd\<lparr>velocity := Vector3 (vec_x (velocity bd) * (1 - combinedFriction))
                             (vec_y (velocity bd))
                             (vec_z (velocity bd) * (1 - combinedFriction))\<rparr>"

definition logEvent :: "event \<Rightarrow> system \<Rightarrow> system" where
  "logEvent e s = s\<lparr>trace := trace s @ [e]\<rparr>"

definition resolveCollision :: "ref \<Rightarrow> other \<Rightarrow> system \<Rightarrow> system" where
  "resolveCollision a staticObj s0 =
     (let s = logEvent (ResolveCollision a staticObj) s0;
          bd = bodyStore s a;
          overlap = overlapOf (dimensions bd) (position bd)
                      (otherDimensions s staticObj) (otherPosition s staticObj);
          ax = smallestOverlapAxis overlap;
          direction = directionOf (component ax (position bd))
                        (component ax (otherPosition s staticObj));
          s1 = modBody a (pushOut ax direction (component ax overlap)) s
      in case otherFriction s1 staticObj of
           None \<Rightarrow> s1
         | Some staticFriction \<Rightarrow>
             if friction (bodyStore s1 a) > 0 \<and> staticFriction > 0
             then modBody a (applyFriction (friction (bodyStore s1 a) * staticFriction)) s1
             else s1)"

definition addVelocity :: "vec3 \<Rightarrow> body \<Rightarrow> body" where
  "addVelocity impulse bd = bd\<lparr>velocity := vadd (velocity bd) (divideScalar impulse (mass bd))\<rparr>"

definition subVelocity :: "vec3 \<Rightarrow> body \<Rightarrow> body" where
  "subVelocity impulse bd = bd\<lparr>velocity := vsub (velocity bd) (divideScalar impulse (mass bd))\<rparr>"

definition movePosition :: "axis \<Rightarrow> real \<Rightarrow> body \<Rightarrow> body" where
  "movePosition ax d bd =
     bd\<lparr>position := setComponent ax (component ax (position bd) + d) (position bd)\<rparr>"

text \<open>
  The dynamic resolver. Its first statement reads \<open>bodyB.velocity.x\<close>: a collider has no
  \<open>velocity\<close>, and reading a property of \<open>undefined\<close> throws a TypeError. The writes go
  to the store one after the other, as the assignments of the source do.
\<close>

fun resolveCollisionDynamic :: "ref \<Rightarrow> other \<Rightarrow> system \<Rightarrow> result" where
  "resolveCollisionDynamic a (OtherCollider c) s0 =
     Thrown TypeError (logEvent (ResolveCollisionDynamic a (OtherCollider c)) s0)"
| "resolveCollisionDynamic a (OtherBody b) s0 =
     (let s = logEvent (ResolveCollisionDynamic a (OtherBody b)) s0;
          bodyA = bodyStore s a;
          bodyB = bodyStore s b;
          relativeVelocity = vsub (velocity bodyA) (velocity bodyB);
          normal = normalize (vsub (position bodyB) (position bodyA));
          velocityAlongNormal = dot relativeVelocity normal
      in if velocityAlongNormal > 0 then Done s
         else
           let restitution = min (restitution bodyA) (restitution bodyB);
               impulseStrength = (- (1 + restitution) * velocityAlongNormal)
                                   / (1 / mass bodyA + 1 / mass bodyB);
               impulse = multiplyScalar normal impulseStrength;
               s1 = modBody a (addVelocity impulse) s;
               s2 = modBody b (subVelocity impulse) s1;
               overlap = overlapOf (dimensions (bodyStore s2 a)) (position (bodyStore s2 a))
                           (dimensions (bodyStore s2 b)) (position (bodyStore s2 b));
               ax = smallestOverlapAxis overlap;
               direction = directionOf (component ax (position (bodyStore s2 a)))
                             (component ax (position (bodyStore s2 b)));
               moveAmount = component ax overlap / 2;
               s3 = modBody a (movePosition ax (direction * moveAmount)) s2
           in Done (modBody b (movePosition ax (- (direction * moveAmount))) s3))"

definition handleCollisionEnter :: "ref \<Rightarrow> other \<Rightarrow> system \<Rightarrow> result" where
  "handleCollisionEnter a b s =
     (if otherIsStatic s b \<or> otherIsTrigger s b then Done (resolveCollision a b s)
      else resolveCollisionDynamic a b s)"

definition handleCollisionStay :: "ref \<Rightarrow> other \<Rightarrow> system \<Rightarrow> result" where
  "handleCollisionStay a b s =
     (if otherIsStatic s b \<or> otherIsTrigger s b then Done (resolveCollision a b s)
      else resolveCollisionDynamic a b s)"

definition handleCollisionExit :: "ref \<Rightarrow> other \<Rightarrow> system \<Rightarrow> result" where
  "handleCollisionExit a b s = Done s"

subsection \<open>The collision matrix\<close>

text \<open>\<open>if (!this.collisionMatrix[id]) this.collisionMatrix[id] = {}\<close>\<close>

definition initRow :: "string \<Rightarrow> matrix \<Rightarrow> matrix" where
  "initRow a m = (case m a of None \<Rightarrow> m(a \<mapsto> Map.empty) | Some row \<Rightarrow> m)"

text \<open>\<open>this.collisionMatrix[a][b]\<close>, read and written; the row exists when the pass
  reads it.\<close>

definition lookupEntry :: "matrix \<Rightarrow> string \<Rightarrow> string \<Rightarrow> bool option" where
  "lookupEntry m a b = (case m a of None \<Rightarrow> None | Some row \<Rightarrow> row b)"

definition setEntry :: "string \<Rightarrow> string \<Rightarrow> bool \<Rightarrow> matrix \<Rightarrow> matrix" where
  "setEntry a b v m = (case m a of None \<Rightarrow> m | Some row \<Rightarrow> m(a \<mapsto> row(b \<mapsto> v)))"

text \<open>The branch of the chain \<open>if (isColliding && !wasColliding) ... else if (isColliding
  && wasColliding) ... else if (!isColliding && wasColliding) ...\<close>.\<close>

definition classify :: "bool \<Rightarrow> bool option \<Rightarrow> transition option" where
  "classify isColliding wasColliding =
     (if isColliding \<and> \<not> truthy wasColliding then Some ENTER
      else if isColliding \<and> truthy wasColliding then Some STAY
      else if \<not> isColliding \<and> truthy wasColliding then Some EXIT
      else None)"

text \<open>The bookkeeping of one pair: the row is created if needed, the old entry is read,
  the new one is written, and the pair is recorded in the trace.\<close>

definition trackPair :: "ref \<Rightarrow> other \<Rightarrow> string \<Rightarrow> string \<Rightarrow> bool \<Rightarrow> system \<Rightarrow> transition option \<times> system" where
  "trackPair a b aKey bKey isColliding s =
     (let m = initRow aKey (collisionMatrix s);
          wasColliding = lookupEntry m aKey bKey;
          t = classify isColliding wasColliding
      in (t, logEvent (PairCheck a b isColliding t)
               (s\<lparr>collisionMatrix := setEntry aKey bKey isColliding m\<rparr>)))"

definition callback :: "callbackName \<Rightarrow> bool \<Rightarrow> ref \<Rightarrow> ref \<Rightarrow> system \<Rightarrow> system" where
  "callback n defined c a s = (if defined then logEvent (Callback n c a) s else s)"

fun andThen :: "result \<Rightarrow> (system \<Rightarrow> result) \<Rightarrow> result" where
  "andThen (Done s) f = f s"
| "andThen (Thrown e s) f = Thrown e s"

subsection \<open>The pass over all pairs\<close>

definition bodyPair :: "ref \<Rightarrow> ref \<Rightarrow> system \<Rightarrow> result" where
  "bodyPair a b s =
     (let isColliding = checkCollision (bodyStore s a) (bodyStore s b);
          (t, s1) = trackPair a (OtherBody b) (key (id' (bodyStore s a))) (key (id' (bodyStore s b)))
                      isColliding s
      in case t of
           Some ENTER \<Rightarrow> handleCollisionEnter a (OtherBody b) s1
         | Some STAY \<Rightarrow> handleCollisionStay a (OtherBody b) s1
         | Some EXIT \<Rightarrow> handleCollisionExit a (OtherBody b) s1
         | None \<Rightarrow> Done s1)"

definition colliderPair :: "ref \<Rightarrow> ref \<Rightarrow> system \<Rightarrow> result" where
  "colliderPair a c s =
     (let col = colliderStore s c;
          isColliding = checkCollision (bodyStore s a) col;
          (t, s1) = trackPair a (OtherCollider c) (key (id' (bodyStore s a))) (key (id' col))
                      isColliding s
      in case t of
           Some ENTER \<Rightarrow>
             (if isTrigger col then Done (callback OnTriggerEnter (onTriggerEnter col) c a s1)
              else andThen (handleCollisionEnter a (OtherCollider c) s1)
                     (\<lambda>s2. Done (callback OnCollisionEnter (onCollisionEnter col) c a s2)))
         | Some STAY \<Rightarrow>
             (if isTrigger col then Done (callback OnTriggerStay (onTriggerStay col) c a s1)
              else andThen (handleCollisionStay a (OtherCollider c) s1)
                     (\<lambda>s2. Done (callback OnCollisionStay (onCollisionStay col) c a s2)))
         | Some EXIT \<Rightarrow>
             (if isTrigger col then Done (callback OnTriggerExit (onTriggerExit col) c a s1)
              else Done (callback OnCollisionExit (onCollisionExit col) c a s1))
         | None \<Rightarrow> Done s1)"

text \<open>The inner loop over the bodies, \<open>j\<close> running with the element; \<open>i\<close> is the index
  of \<open>bodyA\<close>.\<close>

fun bodiesLoop :: "ref \<Rightarrow> nat \<Rightarrow> (nat \<times> ref) list \<Rightarrow> system \<Rightarrow> result" where
  "bodiesLoop a i [] s = Done s"
| "bodiesLoop a i ((j, b) # rest) s =
     (if i = j then bodiesLoop a i rest s
      else andThen (bodyPair a b s) (bodiesLoop a i rest))"

fun collidersLoop :: "ref \<Rightarrow> ref list \<Rightarrow> system \<Rightarrow> result" where
  "collidersLoop a [] s = Done s"
| "collidersLoop a (c # rest) s = andThen (colliderPair a c s) (collidersLoop a rest)"

fun outerLoop :: "(nat \<times> ref) list \<Rightarrow> system \<Rightarrow> result" where
  "outerLoop [] s = Done s"
| "outerLoop ((i, a) # rest) s =
     (if isStatic (bodyStore s a) then outerLoop rest s
      else andThen (bodiesLoop a i (enumerate 0 (bodies s)) s)
             (\<lambda>s1. andThen (collidersLoop a (colliders s1) s1) (outerLoop rest)))"

definition checkCollisions :: "system \<Rightarrow> result" where
  "checkCollisions s = outerLoop (enumerate 0 (bodies s)) s"

subsection \<open>The step\<close>

definition integrateBody :: "vec3 \<Rightarrow> real \<Rightarrow> body \<Rightarrow> body" where
  "integrateBody g scaledDelta bd =
     (if isStatic bd then bd
      else
        let acc = vadd (acceleration bd) g;
            vel = vadd (velocity bd) (multiplyScalar acc scaledDelta);
            pos = vadd (position bd) (multiplyScalar vel scaledDelta)
        in bd\<lparr>position := pos, velocity := vel, acceleration := Vector3 0 0 0\<rparr>)"

definition integrateAll :: "real \<Rightarrow> system \<Rightarrow> system" where
  "integrateAll scaledDelta s =
     fold (\<lambda>b. modBody b (integrateBody (gravity s) scaledDelta)) (bodies s) s"

definition update :: "real \<Rightarrow> system \<Rightarrow> result" where
  "update deltaTime s =
     (let scaledDelta = deltaTime * timeScale s
      in if scaledDelta < 1 / 10000 then Done s
         else checkCollisions (integrateAll scaledDelta s))"

text \<open>A run of frames: the host's loop calls \<open>update\<close> once per frame and goes on after
  a frame that threw.\<close>

definition updates :: "real list \<Rightarrow> system \<Rightarrow> system" where
  "updates deltas s = fold (\<lambda>deltaTime st. stateOf (update deltaTime st)) deltas s"

subsection \<open>Example systems\<close>

definition noSystemOptions :: systemOptions where
  "noSystemOptions = \<lparr>opt_gravity = None, opt_timeScale = None, opt_debugEnabled = None\<rparr>"

definition noBodyOptions :: bodyOptions where
  "noBodyOptions =
     \<lparr>bopt_id = None, bopt_position = None, bopt_velocity = None, bopt_acceleration = None,
      bopt_mass = None, bopt_restitution = None, bopt_friction = None, bopt_isStatic = None,
      bopt_shape = None, bopt_dimensions = None\<rparr>"

definition noColliderOptions :: colliderOptions where
  "noColliderOptions =
     \<lparr>copt_id = None, copt_position = None, copt_shape = None, copt_dimensions = None,
      copt_isTrigger = None, copt_onCollisionEnter = False, copt_onCollisionStay = False,
      copt_onCollisionExit = False, copt_onTriggerEnter = False, copt_onTriggerStay = False,
      copt_onTriggerExit = False\<rparr>"

text \<open>\<open>new PhysicsSystem()\<close>, then \<open>createBody()\<close>.\<close>

definition oneBody :: system where
  "oneBody = snd (createBody noBodyOptions (newPhysicsSystem noSystemOptions))"

text \<open>\<open>new PhysicsSystem()\<close>, \<open>createBody()\<close>, then
  \<open>createCollider({onCollisionEnter: f})\<close>: a body and a solid collider with a callback,
  both unit boxes at the origin.\<close>

definition bodyOnSolid :: system where
  "bodyOnSolid =
     snd (createCollider (noColliderOptions\<lparr>copt_onCollisionEnter := True\<rparr>) oneBody)"

text \<open>\<open>a = createBody(); createBody(); removeBody(a); createBody()\<close>\<close>

definition reusedId :: system where
  "reusedId =
     (let (a, s1) = createBody noBodyOptions (newPhysicsSystem noSystemOptions);
          (b, s2) = createBody noBodyOptions s1;
          s3 = removeBody a s2;
          (c, s4) = createBody noBodyOptions s3
      in s4)"

text \<open>Every option of \<open>createBody\<close> that has a number or a string set to a falsy value.\<close>

definition zeroBodyOptions :: bodyOptions where
  "zeroBodyOptions =
     noBodyOptions\<lparr>bopt_id := Some [], bopt_mass := Some 0, bopt_restitution := Some 0,
                   bopt_friction := Some 0\<rparr>"

text \<open>Two bodies one unit apart on the x axis, of masses 1 and 3, that move apart.\<close>

definition twoBodies :: system where
  "twoBodies =
     (newPhysicsSystem noSystemOptions)
       \<lparr>bodies := [0, 1],
        bodyStore := (\<lambda>_. defaultBody)
          (0 := defaultBody\<lparr>id' := Some ''body_0'', velocity := Vector3 (- 1) 0 0\<rparr>,
           1 := defaultBody\<lparr>id' := Some ''body_1'', position := Vector3 1 0 0,
                             velocity := Vector3 1 0 0, mass := 3\<rparr>),
        nextBody := 2,
        collisionMatrix := [''body_0'' \<mapsto> [''body_1'' \<mapsto> True],
                            ''body_1'' \<mapsto> [''body_0'' \<mapsto> True]]\<rparr>"

text \<open>A body that overlaps a static body by the same depth on x and on y, and by more
  on z.\<close>

definition tiedOverlap :: system where
  "tiedOverlap =
     (newPhysicsSystem noSystemOptions)
       \<lparr>bodies := [0, 1],
        bodyStore := (\<lambda>_. defaultBody)
          (0 := defaultBody\<lparr>id' := Some ''body_0'', position := Vector3 (1 / 2) (1 / 2) 0\<rparr>,
           1 := defaultBody\<lparr>id' := Some ''body_1'', isStatic := True\<rparr>),
        nextBody := 2\<rparr>"

text \<open>The closed form of a fall from rest: velocity and position after \<open>n\<close> steps.\<close>

definition fallVelocity :: "vec3 \<Rightarrow> real \<Rightarrow> nat \<Rightarrow> vec3" where
  "fallVelocity g dt n = multiplyScalar g (dt * real n)"

definition fallPosition :: "vec3 \<Rightarrow> vec3 \<Rightarrow> real \<Rightarrow> nat \<Rightarrow> vec3" where
  "fallPosition p g dt n = vadd p (multiplyScalar g (dt\<^sup>2 * real n * (real n + 1) / 2))"

definition freeFall :: "ref \<Rightarrow> real \<Rightarrow> nat \<Rightarrow> system \<Rightarrow> system" where
  "freeFall r dt n s =
     modBody r (\<lambda>bd. bd\<lparr>position := fallPosition (position bd) (gravity s) dt n,
                        velocity := fallVelocity (gravity s) dt n,
                        acceleration := Vector3 0 0 0\<rparr>) s"

subsection \<open>Notions of the proofs\<close>


text \<open>The checks of one pair \<open>(a, b)\<close> in a trace, in the order of the passes: the value
  of \<open>isColliding\<close> and the branch taken.\<close>

fun isPairCheck :: "event \<Rightarrow> bool" where
  "isPairCheck (PairCheck a b c t) = True"
| "isPairCheck (ResolveCollision a b) = False"
| "isPairCheck (ResolveCollisionDynamic a b) = False"
| "isPairCheck (Callback n c a) = False"






text \<open>A step that is physics only: it leaves the collections, the colliders, the ids
  and the matrix alone and records no check of a pair.\<close>

definition quiet :: "event list \<Rightarrow> bool" where
  "quiet evs = (\<forall>e \<in> set evs. \<not> isPairCheck e)"





section \<open>Properties\<close>

subsection \<open>The registry\<close>

lemma numberToString_digit: "n < 10 \<Longrightarrow> numberToString n = [''0123456789'' ! n]"
  by (simp add: numberToString.simps)

lemma createBody_object:
  "bodyStore (snd (createBody options s)) (fst (createBody options s))
     = bodyLiteral options (length (bodies s))"
  by (simp add: createBody_def addBody_def Let_def modBody_def bodyLiteral_def falsyId_def
      orString_def split: option.splits)

text \<open>
  C10: \<open>createBody\<close> puts the default in place of every option whose value is falsy, not
  only of an absent one: a mass of 0 becomes 1, a restitution of 0 becomes 0.3, a friction
  of 0 becomes 0.5, the id \<open>""\<close> becomes the generated id, and the constructor turns a
  time scale of 0 into 1. No body that \<open>createBody\<close> makes has mass, restitution or
  friction 0.
\<close>

theorem createBody_replaces_falsy_options:
  "mass (bodyStore (snd (createBody options s)) (fst (createBody options s))) \<noteq> 0
   \<and> restitution (bodyStore (snd (createBody options s)) (fst (createBody options s))) \<noteq> 0
   \<and> friction (bodyStore (snd (createBody options s)) (fst (createBody options s))) \<noteq> 0
   \<and> (bopt_mass options = Some 0 \<longrightarrow>
        mass (bodyStore (snd (createBody options s)) (fst (createBody options s))) = 1)
   \<and> (bopt_restitution options = Some 0 \<longrightarrow>
        restitution (bodyStore (snd (createBody options s)) (fst (createBody options s))) = 3 / 10)
   \<and> (bopt_friction options = Some 0 \<longrightarrow>
        friction (bodyStore (snd (createBody options s)) (fst (createBody options s))) = 1 / 2)
   \<and> (bopt_id options = Some [] \<longrightarrow>
        id' (bodyStore (snd (createBody options s)) (fst (createBody options s)))
          = Some (''body_'' @ numberToString (length (bodies s))))
   \<and> (opt_timeScale systemOptions = Some 0 \<longrightarrow> timeScale (newPhysicsSystem systemOptions) = 1)"
  unfolding createBody_object
  by (simp add: bodyLiteral_def orNumber_def orString_def newPhysicsSystem_def split: option.splits)

theorem createBody_replaces_falsy_options_witness:
  "bopt_mass zeroBodyOptions = Some 0
   \<and> bopt_restitution zeroBodyOptions = Some 0
   \<and> bopt_friction zeroBodyOptions = Some 0
   \<and> bopt_id zeroBodyOptions = Some []
   \<and> opt_timeScale (noSystemOptions\<lparr>opt_timeScale := Some 0\<rparr>) = Some 0
   \<and> mass (bodyStore (snd (createBody zeroBodyOptions oneBody)) (fst (createBody zeroBodyOptions oneBody))) = 1
   \<and> restitution (bodyStore (snd (createBody zeroBodyOptions oneBody)) (fst (createBody zeroBodyOptions oneBody))) = 3 / 10
   \<and> friction (bodyStore (snd (createBody zeroBodyOptions oneBody)) (fst (createBody zeroBodyOptions oneBody))) = 1 / 2
   \<and> id' (bodyStore (snd (createBody zeroBodyOptions oneBody)) (fst (createBody zeroBodyOptions oneBody)))
        = Some ''body_1''
   \<and> timeScale (newPhysicsSystem (noSystemOptions\<lparr>opt_timeScale := Some 0\<rparr>)) = 1"
proof -
  have len: "length (bodies oneBody) = 1"
    by (simp add: oneBody_def createBody_def addBody_def Let_def modBody_def newPhysicsSystem_def
        split: if_splits)
  show ?thesis
    using createBody_replaces_falsy_options
      [of zeroBodyOptions oneBody "noSystemOptions\<lparr>opt_timeScale := Some 0\<rparr>"]
    by (simp add: zeroBodyOptions_def noBodyOptions_def noSystemOptions_def len numberToString_digit)
qed



lemma oneBody_eq:
  "oneBody = (newPhysicsSystem noSystemOptions)
      \<lparr>bodies := [0], bodyStore := (\<lambda>_. defaultBody)(0 := defaultBody\<lparr>id' := Some ''body_0''\<rparr>),
       nextBody := Suc 0\<rparr>"
  by (simp add: oneBody_def createBody_def addBody_def Let_def modBody_def newPhysicsSystem_def
      bodyLiteral_def noBodyOptions_def orString_def orObject_def orNumber_def orBool_def
      falsyId_def defaultBody_def numberToString_digit)

lemma bodyOnSolid_eq:
  "bodyOnSolid = oneBody
      \<lparr>colliders := [0],
       colliderStore := (\<lambda>_. defaultCollider)
         (0 := defaultCollider\<lparr>id' := Some ''collider_0'', onCollisionEnter := True\<rparr>),
       nextCollider := Suc 0\<rparr>"
  by (simp add: bodyOnSolid_def oneBody_eq createCollider_def addCollider_def Let_def modCollider_def
      newPhysicsSystem_def colliderLiteral_def noColliderOptions_def orString_def orObject_def
      orBool_def falsyId_def defaultCollider_def numberToString_digit)

text \<open>
  C2 (the code at the failing input): after \<open>a = createBody(); createBody(); removeBody(a);
  createBody()\<close> the collection holds two different bodies, and both have the id
  \<open>body_1\<close>: the third body is named after the length of the collection, which the
  removal has brought back to 1.
\<close>

theorem generated_id_reused:
  "bodies reusedId = [1, 2]
   \<and> map (\<lambda>r. id' (bodyStore reusedId r)) (bodies reusedId) = [Some ''body_1'', Some ''body_1'']"
  by (simp add: reusedId_def createBody_def addBody_def removeBody_def Let_def modBody_def
      newPhysicsSystem_def bodyLiteral_def noBodyOptions_def orString_def falsyId_def
      numberToString_digit)

subsection \<open>The step\<close>

text \<open>
  C9: when \<open>deltaTime * timeScale\<close> is below \<open>1e-4\<close> (zero and negative deltas
  included), \<open>update\<close> returns the system as it was: bodies, colliders, the matrix and the
  trace of resolver and callback calls are all unchanged.
\<close>

theorem update_skips_small_delta:
  "deltaTime * timeScale s < 1 / 10000 \<Longrightarrow> update deltaTime s = Done s"
  by (simp add: update_def)

theorem update_skips_small_delta_witness:
  "(- 1) * timeScale oneBody < 1 / 10000 \<and> update (- 1) oneBody = Done oneBody
   \<and> 0 * timeScale oneBody < 1 / 10000 \<and> update 0 oneBody = Done oneBody"
  using update_skips_small_delta [of "- 1" oneBody] update_skips_small_delta [of 0 oneBody]
  by (simp add: oneBody_eq newPhysicsSystem_def noSystemOptions_def orNumber_def)

lemma update_single_body:
  assumes "bodies s = [r]" and "colliders s = []" and "1 / 10000 \<le> deltaTime * timeScale s"
  shows "update deltaTime s = Done (modBody r (integrateBody (gravity s) (deltaTime * timeScale s)) s)"
  using assms
  by (simp add: update_def integrateAll_def checkCollisions_def modBody_def Let_def)

lemma fallVelocity_Suc:
  "vadd (fallVelocity g dt n) (multiplyScalar (vadd (Vector3 0 0 0) g) dt) = fallVelocity g dt (Suc n)"
  by (simp add: fallVelocity_def vadd_def multiplyScalar_def algebra_simps)

lemma fallPosition_Suc:
  "vadd (fallPosition p g dt n) (multiplyScalar (fallVelocity g dt (Suc n)) dt) = fallPosition p g dt (Suc n)"
  by (simp add: fallPosition_def fallVelocity_def vadd_def multiplyScalar_def power2_eq_square field_simps)

lemma integrate_step:
  assumes "\<not> isStatic bd"
  shows "integrateBody g dt
           (bd\<lparr>position := fallPosition p g dt n, velocity := fallVelocity g dt n,
               acceleration := Vector3 0 0 0\<rparr>)
       = bd\<lparr>position := fallPosition p g dt (Suc n), velocity := fallVelocity g dt (Suc n),
             acceleration := Vector3 0 0 0\<rparr>"
  using assms by (simp add: integrateBody_def Let_def fallVelocity_Suc fallPosition_Suc)

lemma updates_snoc: "updates (ds @ [d]) s = stateOf (update d (updates ds s))"
  by (simp add: updates_def)

lemma updates_free_fall:
  assumes "bodies s = [r]" and "colliders s = []" and "\<not> isStatic (bodyStore s r)"
    and "velocity (bodyStore s r) = Vector3 0 0 0" and "acceleration (bodyStore s r) = Vector3 0 0 0"
    and "timeScale s = 1" and "1 / 10000 \<le> dt"
  shows "updates (replicate n dt) s = freeFall r dt n s"
proof (induction n)
  case 0
  have "(bodyStore s r)\<lparr>position := position (bodyStore s r), velocity := Vector3 0 0 0,
           acceleration := Vector3 0 0 0\<rparr> = bodyStore s r"
    using assms(4,5) by (cases "bodyStore s r") simp
  then show ?case
    by (simp add: updates_def freeFall_def modBody_def fallPosition_def fallVelocity_def
        multiplyScalar_def vadd_def)
next
  case (Suc n)
  have "updates (replicate (Suc n) dt) s = stateOf (update dt (updates (replicate n dt) s))"
    using updates_snoc [of "replicate n dt" dt s] by (simp add: replicate_append_same)
  also have "\<dots> = stateOf (update dt (freeFall r dt n s))" by (simp only: Suc.IH)
  also have "update dt (freeFall r dt n s)
      = Done (modBody r (integrateBody (gravity s) dt) (freeFall r dt n s))"
    using update_single_body [of "freeFall r dt n s" r dt] assms(1,2,6,7)
    by (simp add: freeFall_def modBody_def)
  also have "modBody r (integrateBody (gravity s) dt) (freeFall r dt n s) = freeFall r dt (Suc n) s"
    using assms(3) integrate_step [where bd = "bodyStore s r" and g = "gravity s" and dt = dt
        and p = "position (bodyStore s r)" and n = n]
    by (simp add: freeFall_def modBody_def)
  finally show ?case by simp
qed

text \<open>
  C4: a single non-static body at rest with no acceleration, no other body and no
  collider, time scale 1 and a fixed \<open>dt \<ge> 1e-4\<close>: after \<open>n\<close> calls of \<open>update(dt)\<close> its
  \<open>velocity.y\<close> is \<open>g * dt * n\<close> and its \<open>position.y\<close> is
  \<open>y\<^sub>0 + g * dt\<^sup>2 * n * (n + 1) / 2\<close>, \<open>g\<close> the y component of the gravity.
\<close>

theorem free_fall_closed_form:
  assumes "bodies s = [r]" and "colliders s = []" and "\<not> isStatic (bodyStore s r)"
    and "velocity (bodyStore s r) = Vector3 0 0 0" and "acceleration (bodyStore s r) = Vector3 0 0 0"
    and "timeScale s = 1" and "1 / 10000 \<le> dt"
  shows "vec_y (velocity (bodyStore (updates (replicate n dt) s) r)) = vec_y (gravity s) * dt * real n
       \<and> vec_y (position (bodyStore (updates (replicate n dt) s) r))
           = vec_y (position (bodyStore s r)) + vec_y (gravity s) * dt\<^sup>2 * real n * (real n + 1) / 2"
  unfolding updates_free_fall [OF assms]
  by (simp add: freeFall_def modBody_def fallPosition_def fallVelocity_def vadd_def multiplyScalar_def)

theorem free_fall_closed_form_witness:
  "bodies oneBody = [0] \<and> colliders oneBody = [] \<and> \<not> isStatic (bodyStore oneBody 0)
   \<and> velocity (bodyStore oneBody 0) = Vector3 0 0 0
   \<and> acceleration (bodyStore oneBody 0) = Vector3 0 0 0
   \<and> timeScale oneBody = 1 \<and> (1 / 10000 :: real) \<le> 1
   \<and> vec_y (velocity (bodyStore (updates (replicate 2 1) oneBody) 0)) = - (98 / 5)
   \<and> vec_y (position (bodyStore (updates (replicate 2 1) oneBody) 0)) = - (147 / 5)"
proof -
  have h: "bodies oneBody = [0]" "colliders oneBody = []" "\<not> isStatic (bodyStore oneBody 0)"
    "velocity (bodyStore oneBody 0) = Vector3 0 0 0"
    "acceleration (bodyStore oneBody 0) = Vector3 0 0 0" "timeScale oneBody = 1"
    by (simp_all add: oneBody_eq newPhysicsSystem_def noSystemOptions_def orNumber_def defaultBody_def)
  have g: "vec_y (gravity oneBody) = - (98 / 10)" "vec_y (position (bodyStore oneBody 0)) = 0"
    by (simp_all add: oneBody_eq newPhysicsSystem_def noSystemOptions_def orObject_def defaultBody_def)
  show ?thesis
    using free_fall_closed_form [of oneBody 0 1 2] h g by simp
qed

subsection \<open>Resolution\<close>

text \<open>
  C3 (the claim fails): with equal penetrations on x and y, both below that on z, the
  static resolver moves the body along y and leaves x alone; a tie between y and z, or
  between x and z, goes to z.
\<close>

theorem tie_resolved_on_later_axis:
  "overlapOf (dimensions (bodyStore tiedOverlap 0)) (position (bodyStore tiedOverlap 0))
      (dimensions (bodyStore tiedOverlap 1)) (position (bodyStore tiedOverlap 1))
     = Vector3 (1 / 2) (1 / 2) 1
   \<and> smallestOverlapAxis (Vector3 (1 / 2) (1 / 2) 1) = AxisY
   \<and> position (bodyStore (resolveCollision 0 (OtherBody 1) tiedOverlap) 0) = Vector3 (1 / 2) 1 0
   \<and> smallestOverlapAxis (Vector3 (1 / 2) 1 (1 / 2)) = AxisZ
   \<and> smallestOverlapAxis (Vector3 1 (1 / 2) (1 / 2)) = AxisZ"
  by (simp add: tiedOverlap_def newPhysicsSystem_def defaultBody_def overlapOf_def
      smallestOverlapAxis_def resolveCollision_def Let_def logEvent_def modBody_def pushOut_def
      applyFriction_def directionOf_def)

lemma resolveCollision_position:
  "position (bodyStore (resolveCollision a b s) a) =
     (let bd = bodyStore s a;
          ov = overlapOf (dimensions bd) (position bd) (otherDimensions s b) (otherPosition s b);
          ax = smallestOverlapAxis ov
      in setComponent ax (component ax (position bd)
           + directionOf (component ax (position bd)) (component ax (otherPosition s b))
               * component ax ov) (position bd))"
  by (cases b)
     (simp_all add: resolveCollision_def Let_def modBody_def logEvent_def pushOut_def applyFriction_def)

text \<open>
  C3 (amended): the static resolver moves the body along one axis only, an axis of least
  penetration, and a tie goes to the later axis: x is chosen only when its penetration is
  strictly below the other two, y when its penetration is at most that of x and strictly
  below that of z, and z in every other case.
\<close>

theorem resolution_axis_least_penetration:
  "position (bodyStore (resolveCollision a b s) a)
     = setComponent
         (smallestOverlapAxis (overlapOf (dimensions (bodyStore s a)) (position (bodyStore s a))
            (otherDimensions s b) (otherPosition s b)))
         (component (smallestOverlapAxis (overlapOf (dimensions (bodyStore s a))
              (position (bodyStore s a)) (otherDimensions s b) (otherPosition s b)))
            (position (bodyStore s a))
          + directionOf
              (component (smallestOverlapAxis (overlapOf (dimensions (bodyStore s a))
                 (position (bodyStore s a)) (otherDimensions s b) (otherPosition s b)))
                 (position (bodyStore s a)))
              (component (smallestOverlapAxis (overlapOf (dimensions (bodyStore s a))
                 (position (bodyStore s a)) (otherDimensions s b) (otherPosition s b)))
                 (otherPosition s b))
            * component (smallestOverlapAxis (overlapOf (dimensions (bodyStore s a))
                 (position (bodyStore s a)) (otherDimensions s b) (otherPosition s b)))
                (overlapOf (dimensions (bodyStore s a)) (position (bodyStore s a))
                   (otherDimensions s b) (otherPosition s b)))
         (position (bodyStore s a))
   \<and> component (smallestOverlapAxis ov) ov \<le> vec_x ov
   \<and> component (smallestOverlapAxis ov) ov \<le> vec_y ov
   \<and> component (smallestOverlapAxis ov) ov \<le> vec_z ov
   \<and> (smallestOverlapAxis ov = AxisX) = (vec_x ov < vec_y ov \<and> vec_x ov < vec_z ov)
   \<and> (smallestOverlapAxis ov = AxisY) = (vec_y ov \<le> vec_x ov \<and> vec_y ov < vec_z ov)
   \<and> (smallestOverlapAxis ov = AxisZ) = (vec_z ov \<le> vec_x ov \<and> vec_z ov \<le> vec_y ov)"
proof -
  have "component (smallestOverlapAxis ov) ov \<le> vec_x ov
   \<and> component (smallestOverlapAxis ov) ov \<le> vec_y ov
   \<and> component (smallestOverlapAxis ov) ov \<le> vec_z ov
   \<and> (smallestOverlapAxis ov = AxisX) = (vec_x ov < vec_y ov \<and> vec_x ov < vec_z ov)
   \<and> (smallestOverlapAxis ov = AxisY) = (vec_y ov \<le> vec_x ov \<and> vec_y ov < vec_z ov)
   \<and> (smallestOverlapAxis ov = AxisZ) = (vec_z ov \<le> vec_x ov \<and> vec_z ov \<le> vec_y ov)"
    by (auto simp add: smallestOverlapAxis_def)
  then show ?thesis
    by (simp add: resolveCollision_position Let_def)
qed

lemma momentum_of_impulse:
  assumes "mA \<noteq> 0" and "mB \<noteq> 0"
  shows "vadd (multiplyScalar (vadd vA (divideScalar impulse mA)) mA)
              (multiplyScalar (vsub vB (divideScalar impulse mB)) mB)
       = vadd (multiplyScalar vA mA) (multiplyScalar vB mB)"
  using assms by (simp add: vadd_def vsub_def multiplyScalar_def divideScalar_def algebra_simps)

lemma resolveCollisionDynamic_velocities:
  assumes "a \<noteq> b"
    and "dot (vsub (velocity (bodyStore s a)) (velocity (bodyStore s b)))
           (normalize (vsub (position (bodyStore s b)) (position (bodyStore s a)))) \<le> 0"
  shows "\<exists>impulse.
           velocity (bodyStore (stateOf (resolveCollisionDynamic a (OtherBody b) s)) a)
             = vadd (velocity (bodyStore s a)) (divideScalar impulse (mass (bodyStore s a)))
         \<and> velocity (bodyStore (stateOf (resolveCollisionDynamic a (OtherBody b) s)) b)
             = vsub (velocity (bodyStore s b)) (divideScalar impulse (mass (bodyStore s b)))"
proof -
  let ?n = "normalize (vsub (position (bodyStore s b)) (position (bodyStore s a)))"
  let ?van = "dot (vsub (velocity (bodyStore s a)) (velocity (bodyStore s b))) ?n"
  let ?impulse = "multiplyScalar ?n
     ((- (1 + min (restitution (bodyStore s a)) (restitution (bodyStore s b))) * ?van)
        / (1 / mass (bodyStore s a) + 1 / mass (bodyStore s b)))"
  show ?thesis
    using assms
    by (intro exI [of _ ?impulse])
       (simp add: Let_def modBody_def logEvent_def addVelocity_def subVelocity_def movePosition_def)
qed

text \<open>
  C5: two bodies of positive mass at different positions, on which the dynamic resolver
  applies its impulse (the velocity along the normal is not positive): the total momentum
  \<open>massA * velocityA + massB * velocityB\<close> is the same vector before and after.
\<close>

theorem dynamic_impulse_conserves_momentum:
  assumes "0 < mass (bodyStore s a)" and "0 < mass (bodyStore s b)"
    and "position (bodyStore s a) \<noteq> position (bodyStore s b)"
    and "dot (vsub (velocity (bodyStore s a)) (velocity (bodyStore s b)))
           (normalize (vsub (position (bodyStore s b)) (position (bodyStore s a)))) \<le> 0"
  shows "vadd (multiplyScalar (velocity (bodyStore (stateOf (resolveCollisionDynamic a (OtherBody b) s)) a))
                 (mass (bodyStore (stateOf (resolveCollisionDynamic a (OtherBody b) s)) a)))
              (multiplyScalar (velocity (bodyStore (stateOf (resolveCollisionDynamic a (OtherBody b) s)) b))
                 (mass (bodyStore (stateOf (resolveCollisionDynamic a (OtherBody b) s)) b)))
       = vadd (multiplyScalar (velocity (bodyStore s a)) (mass (bodyStore s a)))
              (multiplyScalar (velocity (bodyStore s b)) (mass (bodyStore s b)))"
proof -
  have ab: "a \<noteq> b" using assms(3) by auto
  have ma: "mass (bodyStore (stateOf (resolveCollisionDynamic a (OtherBody b) s)) a) = mass (bodyStore s a)"
    using ab
    by (simp add: Let_def modBody_def logEvent_def addVelocity_def subVelocity_def movePosition_def)
  have mb: "mass (bodyStore (stateOf (resolveCollisionDynamic a (OtherBody b) s)) b) = mass (bodyStore s b)"
    using ab
    by (simp add: Let_def modBody_def logEvent_def addVelocity_def subVelocity_def movePosition_def)
  from resolveCollisionDynamic_velocities [OF ab assms(4)]
  obtain impulse where
    va: "velocity (bodyStore (stateOf (resolveCollisionDynamic a (OtherBody b) s)) a)
             = vadd (velocity (bodyStore s a)) (divideScalar impulse (mass (bodyStore s a)))"
    and vb: "velocity (bodyStore (stateOf (resolveCollisionDynamic a (OtherBody b) s)) b)
             = vsub (velocity (bodyStore s b)) (divideScalar impulse (mass (bodyStore s b)))"
    by blast
  show ?thesis
    unfolding va vb ma mb using assms(1,2) by (intro momentum_of_impulse) auto
qed

lemma normalize_unit_x: "normalize (Vector3 1 0 0) = Vector3 1 0 0"
  by (simp add: normalize_def vlength_def divideScalar_def multiplyScalar_def)

lemma twoBodies_normal:
  "normalize (vsub (position (bodyStore twoBodies 1)) (position (bodyStore twoBodies 0))) = Vector3 1 0 0"
  by (simp add: twoBodies_def defaultBody_def normalize_def vsub_def vlength_def divideScalar_def
      multiplyScalar_def)

theorem dynamic_impulse_conserves_momentum_witness:
  "0 < mass (bodyStore twoBodies 0) \<and> 0 < mass (bodyStore twoBodies 1)
   \<and> position (bodyStore twoBodies 0) \<noteq> position (bodyStore twoBodies 1)
   \<and> dot (vsub (velocity (bodyStore twoBodies 0)) (velocity (bodyStore twoBodies 1)))
        (normalize (vsub (position (bodyStore twoBodies 1)) (position (bodyStore twoBodies 0)))) = - 2
   \<and> velocity (bodyStore (stateOf (resolveCollisionDynamic 0 (OtherBody 1) twoBodies)) 0)
        = Vector3 (19 / 20) 0 0
   \<and> velocity (bodyStore (stateOf (resolveCollisionDynamic 0 (OtherBody 1) twoBodies)) 1)
        = Vector3 (7 / 20) 0 0
   \<and> vadd (multiplyScalar (velocity (bodyStore (stateOf (resolveCollisionDynamic 0 (OtherBody 1) twoBodies)) 0))
              (mass (bodyStore (stateOf (resolveCollisionDynamic 0 (OtherBody 1) twoBodies)) 0)))
           (multiplyScalar (velocity (bodyStore (stateOf (resolveCollisionDynamic 0 (OtherBody 1) twoBodies)) 1))
              (mass (bodyStore (stateOf (resolveCollisionDynamic 0 (OtherBody 1) twoBodies)) 1)))
        = Vector3 2 0 0"
proof -
  have m: "mass (bodyStore twoBodies 0) = 1" "mass (bodyStore twoBodies 1) = 3"
    by (simp_all add: twoBodies_def defaultBody_def)
  have p: "position (bodyStore twoBodies 0) \<noteq> position (bodyStore twoBodies 1)"
    by (simp add: twoBodies_def defaultBody_def)
  have d: "dot (vsub (velocity (bodyStore twoBodies 0)) (velocity (bodyStore twoBodies 1)))
        (normalize (vsub (position (bodyStore twoBodies 1)) (position (bodyStore twoBodies 0)))) = - 2"
    unfolding twoBodies_normal by (simp add: twoBodies_def defaultBody_def dot_def vsub_def)
  have v0: "velocity (bodyStore (stateOf (resolveCollisionDynamic 0 (OtherBody 1) twoBodies)) 0)
        = Vector3 (19 / 20) 0 0"
    by (simp add: Let_def twoBodies_def defaultBody_def logEvent_def modBody_def addVelocity_def
        subVelocity_def movePosition_def newPhysicsSystem_def vadd_def vsub_def divideScalar_def
        multiplyScalar_def dot_def normalize_unit_x)
  have v1: "velocity (bodyStore (stateOf (resolveCollisionDynamic 0 (OtherBody 1) twoBodies)) 1)
        = Vector3 (7 / 20) 0 0"
    by (simp add: Let_def twoBodies_def defaultBody_def logEvent_def modBody_def addVelocity_def
        subVelocity_def movePosition_def newPhysicsSystem_def vadd_def vsub_def divideScalar_def
        multiplyScalar_def dot_def normalize_unit_x)
  have m': "mass (bodyStore (stateOf (resolveCollisionDynamic 0 (OtherBody 1) twoBodies)) 0) = 1"
    "mass (bodyStore (stateOf (resolveCollisionDynamic 0 (OtherBody 1) twoBodies)) 1) = 3"
    by (simp_all add: Let_def twoBodies_def defaultBody_def logEvent_def modBody_def addVelocity_def
        subVelocity_def movePosition_def)
  show ?thesis
    using dynamic_impulse_conserves_momentum [of twoBodies 0 1] p m m' d v0 v1
    by (simp add: vadd_def multiplyScalar_def)
qed

subsection \<open>Dispatch\<close>

lemma solid_collider_dispatch:
  "\<not> isTrigger (colliderStore s c) \<Longrightarrow>
     handleCollisionEnter a (OtherCollider c) s
       = Thrown TypeError (logEvent (ResolveCollisionDynamic a (OtherCollider c)) s)
   \<and> handleCollisionStay a (OtherCollider c) s
       = Thrown TypeError (logEvent (ResolveCollisionDynamic a (OtherCollider c)) s)"
  by (simp add: handleCollisionEnter_def handleCollisionStay_def)

text \<open>
  C1 (the code at the failing input): \<open>new PhysicsSystem()\<close>, \<open>createBody()\<close>,
  \<open>createCollider({onCollisionEnter: f})\<close>, \<open>update(1/60)\<close>. The body enters the solid
  collider; the handler sends the pair to the dynamic resolver, not to the static one,
  and the dynamic resolver throws a TypeError on the collider's missing velocity. No
  static resolution is in the trace, and the callback is not called.
\<close>

theorem solid_collider_reaches_dynamic_resolver:
  "(case update (1 / 60) bodyOnSolid of
      Done s \<Rightarrow> False
    | Thrown e s \<Rightarrow> e = TypeError
        \<and> trace s = [PairCheck 0 (OtherCollider 0) True (Some ENTER),
                      ResolveCollisionDynamic 0 (OtherCollider 0)])"
  by (simp add: bodyOnSolid_eq oneBody_eq update_def integrateAll_def checkCollisions_def Let_def
      newPhysicsSystem_def noSystemOptions_def orNumber_def orObject_def orBool_def modBody_def
      integrateBody_def defaultBody_def defaultCollider_def vadd_def multiplyScalar_def
      colliderPair_def trackPair_def checkCollision_def initRow_def lookupEntry_def setEntry_def
      classify_def truthy_def logEvent_def handleCollisionEnter_def key_def)

subsection \<open>Static bodies\<close>



lemma isStatic_moves [simp]:
  "isStatic (addVelocity v bd) = isStatic bd"
  "isStatic (subVelocity v bd) = isStatic bd"
  "isStatic (movePosition ax d bd) = isStatic bd"
  "isStatic (pushOut ax d e bd) = isStatic bd"
  "isStatic (applyFriction k bd) = isStatic bd"
  by (simp_all add: addVelocity_def subVelocity_def movePosition_def pushOut_def applyFriction_def)








lemma callback_store [simp]:
  "bodyStore (callback n d c a s) = bodyStore s"
  "colliderStore (callback n d c a s) = colliderStore s"
  "bodies (callback n d c a s) = bodies s"
  "colliders (callback n d c a s) = colliders s"
  by (simp_all add: callback_def logEvent_def)












subsection \<open>Enter, stay and exit\<close>







lemma quiet_simps [simp]:
  "quiet []"
  "quiet (e # evs) = (\<not> isPairCheck e \<and> quiet evs)"
  "quiet (xs @ ys) = (quiet xs \<and> quiet ys)"
  by (auto simp add: quiet_def)





lemma id_moves [simp]:
  "id' (addVelocity v bd) = id' bd"
  "id' (subVelocity v bd) = id' bd"
  "id' (movePosition ax d bd) = id' bd"
  "id' (pushOut ax d e bd) = id' bd"
  "id' (applyFriction k bd) = id' bd"
  "id' (integrateBody g dt bd) = id' bd"
  by (simp_all add: addVelocity_def subVelocity_def movePosition_def pushOut_def applyFriction_def
      integrateBody_def Let_def)

































end
